theory Spec2Isabelle
  imports Main
begin

section \<open>JavaScript values\<close>

text \<open>
  The values that reach \<^verbatim>\<open>observer.js\<close> as props, state, flags and arguments.
  Numbers are the integers plus \<open>NaN\<close> (the one number that is not strictly equal to
  itself); an object or a function is its identity, since the code only ever compares
  references, asks for \<^verbatim>\<open>typeof\<close> and hands the value to \<^verbatim>\<open>mobx.isObservable\<close>. The
  engine's own functions and objects are told apart by name.
\<close>

datatype jsval =
    Undefined
  | Null
  | Bool bool
  | Num int
  | NaN
  | Str string
  | Obj nat
  | Func nat
  | BuiltinObj string
  | BuiltinFunc string

text \<open>\<^verbatim>\<open>a === b\<close> and \<^verbatim>\<open>a !== b\<close>.\<close>

fun strict_eq :: "jsval \<Rightarrow> jsval \<Rightarrow> bool" where
  "strict_eq NaN b = False"
| "strict_eq a NaN = False"
| "strict_eq a b = (a = b)"

definition strict_neq :: "jsval \<Rightarrow> jsval \<Rightarrow> bool" where
  "strict_neq a b = (\<not> strict_eq a b)"

text \<open>The truthiness that \<^verbatim>\<open>if (v)\<close>, \<^verbatim>\<open>!v\<close>, \<^verbatim>\<open>v && w\<close> and a loop condition consult.\<close>

fun truthy :: "jsval \<Rightarrow> bool" where
  "truthy Undefined = False"
| "truthy Null = False"
| "truthy (Bool b) = b"
| "truthy (Num n) = (n \<noteq> 0)"
| "truthy NaN = False"
| "truthy (Str s) = (s \<noteq> [])"
| "truthy (Obj r) = True"
| "truthy (Func f) = True"
| "truthy (BuiltinObj n) = True"
| "truthy (BuiltinFunc n) = True"

fun typeof :: "jsval \<Rightarrow> string" where
  "typeof Undefined = ''undefined''"
| "typeof Null = ''object''"
| "typeof (Bool b) = ''boolean''"
| "typeof (Num n) = ''number''"
| "typeof NaN = ''number''"
| "typeof (Str s) = ''string''"
| "typeof (Obj r) = ''object''"
| "typeof (Func f) = ''function''"
| "typeof (BuiltinObj n) = ''object''"
| "typeof (BuiltinFunc n) = ''function''"

section \<open>The update gate: \<^verbatim>\<open>reactiveMixin.shouldComponentUpdate\<close>\<close>

text \<open>
  A props container is the list of its own enumerable properties in the order
  \<^verbatim>\<open>Object.keys\<close> reports them; the keys of one container are distinct. Props
  containers are plain objects, so reading a key the container does not have finds the
  member of \<^verbatim>\<open>Object.prototype\<close> of that name, if there is one, and gives \<^verbatim>\<open>undefined\<close>
  otherwise.
\<close>

type_synonym props = "(string \<times> jsval) list"

definition keys :: "props \<Rightarrow> string list" where
  "keys ps = map fst ps"

definition object_prototype_methods :: "string list" where
  "object_prototype_methods =
     [''constructor'', ''hasOwnProperty'', ''isPrototypeOf'', ''propertyIsEnumerable'',
      ''toLocaleString'', ''toString'', ''valueOf'', ''__defineGetter__'',
      ''__defineSetter__'', ''__lookupGetter__'', ''__lookupSetter__'']"

definition object_prototype :: "string \<Rightarrow> jsval" where
  "object_prototype k =
     (if k \<in> set object_prototype_methods then BuiltinFunc k
      else if k = ''__proto__'' then BuiltinObj ''Object.prototype''
      else Undefined)"

definition get_prop :: "props \<Rightarrow> string \<Rightarrow> jsval" where
  "get_prop ps k = (case map_of ps k of None \<Rightarrow> object_prototype k | Some v \<Rightarrow> v)"

text \<open>
  \<^verbatim>\<open>keys[i]\<close>: an index outside the array reads \<^verbatim>\<open>undefined\<close>, inside it a string.
\<close>

definition key_at :: "string list \<Rightarrow> int \<Rightarrow> jsval" where
  "key_at ks i = (if 0 \<le> i \<and> i < int (length ks) then Str (ks ! nat i) else Undefined)"

text \<open>
  The loop of lines 173 to 187,
  \<^verbatim>\<open>for (let i = keys.length - 1; i >= 0, key = keys[i]; i--)\<close>.
  Its condition is a comma expression, so its value is the value of the assignment
  \<^verbatim>\<open>key = keys[i]\<close>: the loop goes on while the key just read is truthy. The last
  argument is \<open>i + 1\<close>; when it is \<open>0\<close> the index is \<open>-1\<close>, the read is
  \<^verbatim>\<open>undefined\<close> and the loop ends. \<open>isObservable\<close> stands for \<^verbatim>\<open>mobx.isObservable\<close>.
\<close>

fun props_loop :: "(jsval \<Rightarrow> bool) \<Rightarrow> props \<Rightarrow> props \<Rightarrow> string list \<Rightarrow> nat \<Rightarrow> bool" where
  "props_loop isObservable thisProps nextProps ks 0 = False"
| "props_loop isObservable thisProps nextProps ks (Suc i) =
     (let key = key_at ks (int i) in
      if \<not> truthy key then False
      else
        (let k = (case key of Str s \<Rightarrow> s | _ \<Rightarrow> []);
             newValue = get_prop nextProps k in
         if strict_neq newValue (get_prop thisProps k) then True
         else if truthy newValue \<and> typeof newValue = ''object'' \<and> \<not> isObservable newValue
           then True
         else props_loop isObservable thisProps nextProps ks i))"

text \<open>
  \<^verbatim>\<open>shouldComponentUpdate(nextProps, nextState)\<close> on an instance whose \<^verbatim>\<open>this.props\<close>
  and \<^verbatim>\<open>this.state\<close> are the first two arguments. \<open>True\<close> is "must update", \<open>False\<close>
  is "skip". The warning of line 161 is \<open>shouldComponentUpdate_warns\<close>, further down
  with the module's flags; it does not change the result.
\<close>

definition shouldComponentUpdate ::
  "(jsval \<Rightarrow> bool) \<Rightarrow> props \<Rightarrow> jsval \<Rightarrow> props \<Rightarrow> jsval \<Rightarrow> bool" where
  "shouldComponentUpdate isObservable thisProps thisState nextProps nextState =
     (if strict_neq thisState nextState then True
      else if length (keys thisProps) \<noteq> length (keys nextProps) then True
      else props_loop isObservable thisProps nextProps (keys thisProps)
             (length (keys thisProps)))"

text \<open>
  The four conditions of the specification's update gate, as the specification words
  them: the state reference is unchanged, the key counts agree, every prop is
  reference-equal to its next value, and no prop is a non-observable object.
\<close>

definition plain_object :: "(jsval \<Rightarrow> bool) \<Rightarrow> jsval \<Rightarrow> bool" where
  "plain_object isObservable v = (truthy v \<and> typeof v = ''object'' \<and> \<not> isObservable v)"

definition gate_skips :: "(jsval \<Rightarrow> bool) \<Rightarrow> props \<Rightarrow> jsval \<Rightarrow> props \<Rightarrow> jsval \<Rightarrow> bool" where
  "gate_skips isObservable thisProps thisState nextProps nextState =
     (strict_eq thisState nextState
      \<and> length (keys thisProps) = length (keys nextProps)
      \<and> list_all (\<lambda>k. strict_eq (get_prop nextProps k) (get_prop thisProps k)) (keys thisProps)
      \<and> list_all (\<lambda>k. \<not> plain_object isObservable (get_prop nextProps k)) (keys thisProps))"

section \<open>The module and one component instance\<close>

datatype js_error =
    Error string
  | TypeError
  | Thrown nat

text \<open>
  \<open>Error m\<close> is \<^verbatim>\<open>new Error(m)\<close>, \<open>TypeError\<close> the engine's own error for a property
  read on \<^verbatim>\<open>null\<close> or \<^verbatim>\<open>undefined\<close> or a property write on a primitive in strict code,
  and \<open>Thrown n\<close> an error value thrown by the host framework, by identity.
\<close>

record reaction =
  rname :: string
  isDisposed :: bool

text \<open>
  What \<^verbatim>\<open>this.render\<close> currently is: the component's own render function, or one of
  the two closures \<^verbatim>\<open>componentWillMount\<close> creates.
\<close>

datatype render_fn = BaseRender | InitialRender | ReactiveRender

text \<open>
  The user's optional \<^verbatim>\<open>componentWillReact\<close> hook either just returns, or has the side
  effect the comment of lines 93 to 95 describes: it gets the component unmounted.
  Forcing the host framework's update either returns or throws.
\<close>

datatype will_react = Returns | Unmounts

datatype force_outcome = ForceReturns | ForceThrows js_error

text \<open>
  The objects handed to \<^verbatim>\<open>renderReporter.emit\<close>. A time is \<open>None\<close> when the
  subtraction that computes it has an \<^verbatim>\<open>undefined\<close> operand.
\<close>

datatype report =
    RenderReport "int option" "int option" nat "nat option"
  | DestroyReport nat "nat option"

text \<open>
  The state is the module's variables together with one component instance and the
  closure \<^verbatim>\<open>componentWillMount\<close> creates for it. The host framework calls
  \<^verbatim>\<open>componentWillMount\<close> once per instance, so one closure per instance is all there is.
  \<^item> \<open>hasWeakMap\<close>, \<open>hasReactDOM\<close>: whether the environment defines \<^verbatim>\<open>WeakMap\<close> and
    whether the \<^verbatim>\<open>ReactDOM\<close> import is truthy;
  \<^item> \<open>componentByNodeRegistery\<close>: the weak map from DOM nodes to components, \<open>None\<close>
    when it is \<^verbatim>\<open>undefined\<close>;
  \<^item> \<open>renderReporter\<close>: the reports emitted so far, oldest first;
  \<^item> \<open>self\<close>: the identity of the instance; \<open>domNode\<close>: what
    \<^verbatim>\<open>ReactDOM.findDOMNode(this)\<close> returns, \<open>None\<close> for \<^verbatim>\<open>null\<close>;
  \<^item> \<open>thisDisplayName\<close>, \<open>thisName\<close>, \<open>constructorDisplayName\<close>, \<open>constructorName\<close>,
    \<open>rootNodeID\<close>: the properties line 74 to 78 read, \<open>None\<close> for \<^verbatim>\<open>undefined\<close>;
  \<^item> \<open>mobxIsUnmounted\<close>: whether \<^verbatim>\<open>this.__$mobxIsUnmounted\<close> is \<^verbatim>\<open>true\<close>;
  \<^item> \<open>reactionLabel\<close>, \<open>reaction\<close>, \<open>isRenderingPending\<close>: the closure's variables
    (the label is the name the reaction is created with); \<open>mobxAttached\<close>: whether
    \<^verbatim>\<open>reactiveRender.$mobx\<close> has been set, to the closure's \<^verbatim>\<open>reaction\<close>;
  \<^item> \<open>forceUpdateCalls\<close>, \<open>baseRenderCalls\<close>, \<open>componentWillReactCalls\<close>: how often
    the host framework's \<^verbatim>\<open>forceUpdate\<close>, the component's own render function and the
    user's hook have been called.
\<close>

record state =
  hasWeakMap :: bool
  hasReactDOM :: bool
  isDevtoolsEnabled :: bool
  isUsingStaticRendering :: jsval
  componentByNodeRegistery :: "(nat \<rightharpoonup> nat) option"
  renderReporter :: "report list"
  self :: nat
  domNode :: "nat option"
  thisDisplayName :: "string option"
  thisName :: "string option"
  constructorDisplayName :: "string option"
  constructorName :: "string option"
  rootNodeID :: "string option"
  componentWillReact :: "will_react option"
  mobxIsUnmounted :: bool
  mobRenderStart :: "int option"
  mobRenderEnd :: "int option"
  render :: render_fn
  reactionLabel :: string
  reaction :: "reaction option"
  isRenderingPending :: bool
  mobxAttached :: bool
  forceUpdateCalls :: nat
  baseRenderCalls :: nat
  componentWillReactCalls :: nat

definition findDOMNode :: "state \<Rightarrow> nat option" where
  "findDOMNode s = (if hasReactDOM s then domNode s else None)"

definition emit :: "report \<Rightarrow> state \<Rightarrow> state" where
  \<comment> \<open>Modelled from the spec: \<^verbatim>\<open>./utils/EventEmitter\<close> is not among the sources; the
      specification calls it a subscribable event stream, and emitting publishes the
      report on it.\<close>
  "emit e s = s\<lparr>renderReporter := renderReporter s @ [e]\<rparr>"

definition time_diff :: "int option \<Rightarrow> int option \<Rightarrow> int option" where
  "time_diff a b = (case (a, b) of (Some x, Some y) \<Rightarrow> Some (x - y) | _ \<Rightarrow> None)"

definition reportRendering :: "int \<Rightarrow> state \<Rightarrow> state" where
  "reportRendering now s =
     (let node = findDOMNode s;
          s1 = (case (node, componentByNodeRegistery s) of
                  (Some n, Some reg) \<Rightarrow> s\<lparr>componentByNodeRegistery := Some (reg(n \<mapsto> self s))\<rparr>
                | _ \<Rightarrow> s)
      in emit (RenderReport (time_diff (mobRenderEnd s1) (mobRenderStart s1))
                 (time_diff (Some now) (mobRenderStart s1)) (self s1) node) s1)"

definition tracking_unsupported :: string where
  "tracking_unsupported = ''[mobx-react] tracking components is not supported in this browser.''"

definition trackComponents :: "state \<Rightarrow> js_error + state" where
  "trackComponents s =
     (if \<not> hasWeakMap s then Inl (Error tracking_unsupported)
      else if \<not> isDevtoolsEnabled s then Inr (s\<lparr>isDevtoolsEnabled := True\<rparr>)
      else Inr s)"

definition useStaticRendering :: "jsval \<Rightarrow> state \<Rightarrow> state" where
  "useStaticRendering v s = s\<lparr>isUsingStaticRendering := v\<rparr>"

text \<open>\<^verbatim>\<open>isUsingStaticRendering === true\<close>, the test of lines 71 and 130.\<close>

definition static_active :: "state \<Rightarrow> bool" where
  "static_active s = strict_eq (isUsingStaticRendering s) (Bool True)"

definition shouldComponentUpdate_warns :: "state \<Rightarrow> bool" where
  "shouldComponentUpdate_warns s = truthy (isUsingStaticRendering s)"

section \<open>The reactive mixin's lifecycle hooks\<close>

text \<open>\<^verbatim>\<open>a || b\<close> on values that are a string or \<^verbatim>\<open>undefined\<close>: the empty string is falsy.\<close>

definition str_or :: "string option \<Rightarrow> string option \<Rightarrow> string option" where
  "str_or a b = (case a of Some (c # cs) \<Rightarrow> a | _ \<Rightarrow> b)"

definition initialName :: "state \<Rightarrow> string" where
  "initialName s =
     (case str_or (thisDisplayName s)
             (str_or (thisName s)
                (str_or (str_or (constructorDisplayName s) (constructorName s))
                   (Some ''<component>''))) of
        Some n \<Rightarrow> n
      | None \<Rightarrow> ''<component>'')"

text \<open>The template literal of line 84; an \<^verbatim>\<open>undefined\<close> root node id prints as such.\<close>

definition reaction_label :: "state \<Rightarrow> string" where
  "reaction_label s =
     initialName s @ ''#'' @ (case rootNodeID s of None \<Rightarrow> ''undefined'' | Some r \<Rightarrow> r)
       @ ''.render()''"

text \<open>
  \<^verbatim>\<open>componentWillMount\<close> (lines 70 to 127): unless static rendering is on, it creates the
  closure (no reaction yet, nothing pending, a \<^verbatim>\<open>reactiveRender\<close> without \<^verbatim>\<open>$mobx\<close>)
  and installs \<^verbatim>\<open>initialRender\<close> as \<^verbatim>\<open>this.render\<close>. The closure's \<^verbatim>\<open>baseRender\<close> is the
  \<^verbatim>\<open>this.render\<close> found at that moment, which on the one call per instance is the
  component's own render function.
\<close>

definition componentWillMount :: "state \<Rightarrow> state" where
  "componentWillMount s =
     (if static_active s then s
      else s\<lparr>reactionLabel := reaction_label s,
             reaction := None,
             isRenderingPending := False,
             mobxAttached := False,
             render := InitialRender\<rparr>)"

text \<open>\<^verbatim>\<open>reaction.dispose()\<close> on the closure's reaction marks it disposed.\<close>

definition dispose :: "state \<Rightarrow> state" where
  "dispose s = s\<lparr>reaction := map_option (\<lambda>r. r\<lparr>isDisposed := True\<rparr>) (reaction s)\<rparr>"

text \<open>
  \<^verbatim>\<open>reactiveRender\<close> (lines 111 to 124), with the two clock readings it may take. It
  clears the pending flag first; \<^verbatim>\<open>reaction.track\<close> then runs the component's own render
  function, between the two time stamps when the devtools are enabled. A call before any
  reaction exists fails on \<^verbatim>\<open>reaction.track\<close>, the flag already cleared.
\<close>

definition reactiveRender :: "int \<times> int \<Rightarrow> state \<Rightarrow> js_error option \<times> state" where
  "reactiveRender clock s =
     (let s1 = s\<lparr>isRenderingPending := False\<rparr> in
      case reaction s1 of
        None \<Rightarrow> (Some TypeError, s1)
      | Some r \<Rightarrow>
          (let s2 = (if isDevtoolsEnabled s1 then s1\<lparr>mobRenderStart := Some (fst clock)\<rparr> else s1);
               s3 = s2\<lparr>baseRenderCalls := baseRenderCalls s2 + 1\<rparr>;
               s4 = (if isDevtoolsEnabled s3 then s3\<lparr>mobRenderEnd := Some (snd clock)\<rparr> else s3)
           in (None, s4)))"

text \<open>
  \<^verbatim>\<open>initialRender\<close> (lines 83 to 109) creates the reaction, attaches it to
  \<^verbatim>\<open>reactiveRender\<close>, installs \<^verbatim>\<open>reactiveRender\<close> as \<^verbatim>\<open>this.render\<close> and calls it.
\<close>

definition initialRender :: "int \<times> int \<Rightarrow> state \<Rightarrow> js_error option \<times> state" where
  "initialRender clock s =
     reactiveRender clock
       (s\<lparr>reaction := Some \<lparr>rname = reactionLabel s, isDisposed = False\<rparr>,
          mobxAttached := True,
          render := ReactiveRender\<rparr>)"

text \<open>The host framework calling \<^verbatim>\<open>this.render()\<close>.\<close>

definition hostRender :: "int \<times> int \<Rightarrow> state \<Rightarrow> js_error option \<times> state" where
  "hostRender clock s =
     (case render s of
        BaseRender \<Rightarrow> (None, s\<lparr>baseRenderCalls := baseRenderCalls s + 1\<rparr>)
      | InitialRender \<Rightarrow> initialRender clock s
      | ReactiveRender \<Rightarrow> reactiveRender clock s)"

text \<open>\<^verbatim>\<open>this.render.$mobx\<close>: only \<^verbatim>\<open>reactiveRender\<close> ever carries the property.\<close>

definition render_mobx :: "state \<Rightarrow> reaction option" where
  "render_mobx s = (if render s = ReactiveRender \<and> mobxAttached s then reaction s else None)"

text \<open>\<^verbatim>\<open>componentWillUnmount\<close> (lines 129 to 145).\<close>

definition componentWillUnmount :: "state \<Rightarrow> state" where
  "componentWillUnmount s =
     (if static_active s then s
      else
        (let s1 = (case render_mobx s of None \<Rightarrow> s | Some r \<Rightarrow> dispose s);
             s2 = s1\<lparr>mobxIsUnmounted := True\<rparr>
         in if isDevtoolsEnabled s2 then
              (let node = findDOMNode s2;
                   s3 = (case (node, componentByNodeRegistery s2) of
                           (Some n, Some reg) \<Rightarrow>
                             s2\<lparr>componentByNodeRegistery := Some (reg(n := None))\<rparr>
                         | _ \<Rightarrow> s2)
               in emit (DestroyReport (self s3) node) s3)
            else s2))"

definition componentDidMount :: "int \<Rightarrow> state \<Rightarrow> state" where
  "componentDidMount now s = (if isDevtoolsEnabled s then reportRendering now s else s)"

definition componentDidUpdate :: "int \<Rightarrow> state \<Rightarrow> state" where
  "componentDidUpdate now s = (if isDevtoolsEnabled s then reportRendering now s else s)"

text \<open>
  Calling the user's \<^verbatim>\<open>componentWillReact\<close>: when its side effect unmounts the
  component, the host framework runs \<^verbatim>\<open>componentWillUnmount\<close>.
\<close>

definition call_componentWillReact :: "will_react \<Rightarrow> state \<Rightarrow> state" where
  "call_componentWillReact w s =
     (let s1 = s\<lparr>componentWillReactCalls := componentWillReactCalls s + 1\<rparr> in
      case w of Returns \<Rightarrow> s1 | Unmounts \<Rightarrow> componentWillUnmount s1)"

text \<open>
  The invalidation handler, the function of lines 84 to 105 that the reaction is
  created with. The first argument says how the host framework's \<^verbatim>\<open>forceUpdate\<close> behaves
  if it gets called. The result is the error that leaves the handler, if any, and the
  state it leaves behind. The \<^verbatim>\<open>finally\<close> block disposes the reaction only on the
  throwing path; were there no reaction, \<^verbatim>\<open>reaction.dispose()\<close> itself would fail.
\<close>

definition onInvalidate :: "force_outcome \<Rightarrow> state \<Rightarrow> js_error option \<times> state" where
  "onInvalidate outcome s =
     (if \<not> isRenderingPending s then
        (let s1 = s\<lparr>isRenderingPending := True\<rparr>;
             s2 = (case componentWillReact s1 of
                     None \<Rightarrow> s1
                   | Some w \<Rightarrow> call_componentWillReact w s1)
         in if \<not> mobxIsUnmounted s2 then
              (let s3 = s2\<lparr>forceUpdateCalls := forceUpdateCalls s2 + 1\<rparr> in
               case outcome of
                 ForceReturns \<Rightarrow> (None, s3)
               | ForceThrows e \<Rightarrow>
                   (case reaction s3 of
                      None \<Rightarrow> (Some TypeError, s3)
                    | Some r \<Rightarrow> (Some e, dispose s3)))
            else (None, s2))
      else (None, s))"

section \<open>What happens to an instance over time\<close>

text \<open>
  The things that can happen to a mounted instance: the dependency tracker delivers an
  invalidation (with the way \<^verbatim>\<open>forceUpdate\<close> would behave), the host framework calls
  \<^verbatim>\<open>this.render()\<close> or one of the lifecycle hooks, or someone calls one of the module's
  switches (\<^verbatim>\<open>componentWillMount\<close> has run by then, and runs once). An invalidation needs
  a handler, so it is only delivered once the reaction has been created; it is delivered
  whether or not the reaction has been disposed, so that nothing below relies on the
  tracker holding back. An error leaves the handler or the render function towards its
  caller; the state it leaves behind is what counts here.
\<close>

datatype event =
    Invalidate force_outcome
  | HostRender int int
  | WillUnmount
  | DidMount int
  | DidUpdate int
  | TrackComponents
  | UseStaticRendering jsval

fun step :: "event \<Rightarrow> state \<Rightarrow> state" where
  "step (Invalidate outcome) s = (if reaction s = None then s else snd (onInvalidate outcome s))"
| "step (HostRender t0 t1) s = snd (hostRender (t0, t1) s)"
| "step WillUnmount s = componentWillUnmount s"
| "step (DidMount now) s = componentDidMount now s"
| "step (DidUpdate now) s = componentDidUpdate now s"
| "step TrackComponents s = (case trackComponents s of Inl e \<Rightarrow> s | Inr s' \<Rightarrow> s')"
| "step (UseStaticRendering v) s = useStaticRendering v s"

fun run :: "event list \<Rightarrow> state \<Rightarrow> state" where
  "run [] s = s"
| "run (e # es) s = run es (step e s)"

text \<open>
  \<open>invalidations outcomes s\<close>: the tracker delivers one invalidation per element of
  \<open>outcomes\<close> to the handler, and nothing else happens in between.
\<close>

fun invalidations :: "force_outcome list \<Rightarrow> state \<Rightarrow> state" where
  "invalidations [] s = s"
| "invalidations (outcome # rest) s = invalidations rest (snd (onInvalidate outcome s))"

section \<open>Functions, hooks and the hook composer\<close>

text \<open>
  A function value, as far as decorating needs to tell functions apart: a function the
  user wrote (by identity), the constructor the host framework builds in
  \<^verbatim>\<open>React.createClass\<close>, a hook of \<^verbatim>\<open>reactiveMixin\<close> (by name), the closure of lines 59
  to 62 over \<^verbatim>\<open>base\<close> and \<^verbatim>\<open>mixinFunc\<close> (the latter \<^verbatim>\<open>undefined\<close> when the mixin has no
  such hook), and the closure of line 228 over \<^verbatim>\<open>componentClass\<close>.
\<close>

datatype func =
    UserFunc nat
  | ReactConstructor
  | MixinFunc string
  | Combined func "func option"
  | StatelessRender func

text \<open>
  The calling context \<^verbatim>\<open>this\<close> of a call: an instance with its current props and
  context. A call is recorded as the function entered, its \<^verbatim>\<open>this\<close> and its arguments.
\<close>

record receiver =
  instanceId :: nat
  currentProps :: jsval
  currentContext :: jsval

datatype call = Call func receiver "jsval list"

text \<open>
  \<open>apply_func f this args\<close> is \<^verbatim>\<open>f.apply(this, args)\<close>: the calls of user, host and
  mixin functions it leads to, in order, and the error that ends it, if any. User and
  mixin functions are entered and return; \<^verbatim>\<open>mixinFunc.apply\<close> on \<^verbatim>\<open>undefined\<close> fails.
\<close>

fun apply_func :: "func \<Rightarrow> receiver \<Rightarrow> jsval list \<Rightarrow> js_error option \<times> call list" where
  "apply_func (UserFunc f) this args = (None, [Call (UserFunc f) this args])"
| "apply_func ReactConstructor this args = (None, [Call ReactConstructor this args])"
| "apply_func (MixinFunc n) this args = (None, [Call (MixinFunc n) this args])"
| "apply_func (Combined base mixinFunc) this args =
     (case apply_func base this args of
        (Some e, calls) \<Rightarrow> (Some e, calls)
      | (None, calls) \<Rightarrow>
          (case mixinFunc of
             None \<Rightarrow> (Some TypeError, calls)
           | Some m \<Rightarrow> (case apply_func m this args of (e, calls') \<Rightarrow> (e, calls @ calls'))))"
| "apply_func (StatelessRender componentClass) this args =
     apply_func componentClass this [currentProps this, currentContext this]"

text \<open>
  An object's function-valued properties, by name; \<open>None\<close> is a property that is
  absent (hook slots hold a function or nothing).
\<close>

type_synonym methods = "string \<rightharpoonup> func"

definition mixin_hooks :: "string list" where
  "mixin_hooks = [''componentWillMount'', ''componentWillUnmount'', ''componentDidMount'',
     ''componentDidUpdate'', ''shouldComponentUpdate'']"

definition reactiveMixin :: methods where
  "reactiveMixin funcName = (if funcName \<in> set mixin_hooks then Some (MixinFunc funcName) else None)"

text \<open>\<^verbatim>\<open>patch(target, funcName)\<close> (lines 53 to 64), returning the target as it leaves it.\<close>

definition patch :: "methods \<Rightarrow> string \<Rightarrow> methods" where
  "patch target funcName =
     (let base = target funcName;
          mixinFunc = reactiveMixin funcName
      in case base of
           None \<Rightarrow> target(funcName := mixinFunc)
         | Some b \<Rightarrow> target(funcName \<mapsto> Combined b mixinFunc))"

section \<open>\<^verbatim>\<open>observer\<close>\<close>

text \<open>
  What can be decorated: a function or an object, with the properties \<^verbatim>\<open>observer\<close>
  reads. \<open>asFunction\<close> is the value as a function (what calling it enters), \<open>prototype\<close>
  the methods of its \<^verbatim>\<open>prototype\<close> when it has one, \<open>ownMethods\<close> the methods of the
  value itself; \<open>isReactClass\<close> and \<open>isInjector\<close> say whether the property is truthy, and
  \<open>extendsReactComponent\<close> is \<^verbatim>\<open>React.Component.isPrototypeOf(componentClass)\<close>.
  The validation metadata \<^verbatim>\<open>propTypes\<close> and \<^verbatim>\<open>contextTypes\<close> of a component is either
  the value declared on it, or the fresh object into which the host framework's
  \<^verbatim>\<open>React.createClass\<close> merges the metadata it is given.
\<close>

datatype metadata = Declared jsval | Merged metadata

record component_class =
  isFunction :: bool
  asFunction :: func
  prototype :: "methods option"
  ownMethods :: methods
  isReactClass :: bool
  extendsReactComponent :: bool
  isInjector :: bool
  displayName :: "string option"
  name :: "string option"
  propTypes :: metadata
  contextTypes :: metadata
  defaultProps :: jsval
  isMobXReactObserver :: bool

text \<open>
  The specification object of lines 223 to 229: its display name, its validation
  metadata, the value its \<^verbatim>\<open>getDefaultProps\<close> returns, and its render hook.
\<close>

record class_spec =
  spec_displayName :: "string option"
  spec_propTypes :: metadata
  spec_contextTypes :: metadata
  spec_getDefaultProps :: jsval
  spec_render :: func

definition createClass :: "class_spec \<Rightarrow> component_class" where
  \<comment> \<open>Modelled from the spec: \<^verbatim>\<open>React.createClass\<close> belongs to the host framework and
      is not among the sources. The specification has it produce the minimal stateful
      shape: an anonymous constructor whose prototype carries the render hook of the
      specification object and no lifecycle hook it does not name, with the display name
      as a static property, the validation metadata merged into fresh objects, and the
      value of \<^verbatim>\<open>getDefaultProps()\<close> as the default props.\<close>
  "createClass sp =
     \<lparr>isFunction = True,
      asFunction = ReactConstructor,
      prototype = Some [''render'' \<mapsto> spec_render sp],
      ownMethods = Map.empty,
      isReactClass = False,
      extendsReactComponent = False,
      isInjector = False,
      displayName = spec_displayName sp,
      name = Some [],
      propTypes = Merged (spec_propTypes sp),
      contextTypes = Merged (spec_contextTypes sp),
      defaultProps = spec_getDefaultProps sp,
      isMobXReactObserver = False\<rparr>"

text \<open>The test of lines 218 to 221 and the object of lines 223 to 229.\<close>

definition stateless :: "component_class \<Rightarrow> bool" where
  "stateless c =
     (isFunction c
      \<and> (case prototype c of None \<Rightarrow> True | Some p \<Rightarrow> p ''render'' = None)
      \<and> \<not> isReactClass c
      \<and> \<not> extendsReactComponent c)"

definition wrapper_spec :: "component_class \<Rightarrow> class_spec" where
  "wrapper_spec c =
     \<lparr>spec_displayName = str_or (displayName c) (name c),
      spec_propTypes = propTypes c,
      spec_contextTypes = contextTypes c,
      spec_getDefaultProps = defaultProps c,
      spec_render = StatelessRender (asFunction c)\<rparr>"

text \<open>Lines 236 to 249: the target is the prototype if there is one, else the value itself.\<close>

definition target_of :: "component_class \<Rightarrow> methods" where
  "target_of c = (case prototype c of Some p \<Rightarrow> p | None \<Rightarrow> ownMethods c)"

definition with_target :: "component_class \<Rightarrow> methods \<Rightarrow> component_class" where
  "with_target c t = (case prototype c of Some p \<Rightarrow> c\<lparr>prototype := Some t\<rparr> | None \<Rightarrow> c\<lparr>ownMethods := t\<rparr>)"

definition lifecycle_hooks :: "string list" where
  "lifecycle_hooks =
     [''componentWillMount'', ''componentWillUnmount'', ''componentDidMount'',
      ''componentDidUpdate'']"

definition decorate :: "component_class \<Rightarrow> component_class" where
  "decorate componentClass =
     (let target = foldl patch (target_of componentClass) lifecycle_hooks;
          target' = (if target ''shouldComponentUpdate'' = None
                     then target(''shouldComponentUpdate'' := reactiveMixin ''shouldComponentUpdate'')
                     else target)
      in (with_target componentClass target')\<lparr>isMobXReactObserver := True\<rparr>)"

text \<open>
  The arguments \<^verbatim>\<open>observer\<close> may be called with: a primitive value, an array of store
  names, or something decoratable. An argument left out is \<^verbatim>\<open>undefined\<close>.
\<close>

datatype arg =
    ArgUndefined
  | ArgNull
  | ArgBool bool
  | ArgNum int
  | ArgNaN
  | ArgString string
  | ArgArray "string list"
  | ArgClass component_class

fun arg_truthy :: "arg \<Rightarrow> bool" where
  "arg_truthy ArgUndefined = False"
| "arg_truthy ArgNull = False"
| "arg_truthy (ArgBool b) = b"
| "arg_truthy (ArgNum n) = (n \<noteq> 0)"
| "arg_truthy ArgNaN = False"
| "arg_truthy (ArgString s) = (s \<noteq> [])"
| "arg_truthy (ArgArray stores) = True"
| "arg_truthy (ArgClass c) = True"

text \<open>
  What \<^verbatim>\<open>observer\<close> returns: the decorated component, the decorator function of line
  203 waiting for its component, or what \<^verbatim>\<open>inject\<close> returns.
\<close>

datatype observed =
    Decorated component_class
  | Decorator "string list"
  | Injected "string list" observed

definition inject :: "string list \<Rightarrow> observed \<Rightarrow> observed" where
  \<comment> \<open>Modelled from the spec: \<^verbatim>\<open>./inject\<close> is not among the sources; the specification
      treats it as the capability "wrap component with stores".\<close>
  "inject stores component = Injected stores component"

definition store_names_message :: string where
  "store_names_message = ''Store names should be provided as array''"

definition valid_component_message :: string where
  "valid_component_message =
     ''Please pass a valid component to '' @ [CHR 0x27] @ ''observer'' @ [CHR 0x27]"

text \<open>
  Lines 211 to 234 for a primitive argument that is neither a string nor nullish:
  reading \<^verbatim>\<open>isInjector\<close> gives \<^verbatim>\<open>undefined\<close>, the value is not a function, and a falsy
  one is rejected at line 233; a truthy one reaches \<^verbatim>\<open>patch\<close>, whose write to a property
  of a primitive fails in the module's strict code.
\<close>

definition observer_primitive :: "arg \<Rightarrow> js_error + observed" where
  "observer_primitive a =
     (if \<not> arg_truthy a then Inl (Error valid_component_message) else Inl TypeError)"

text \<open>
  \<^verbatim>\<open>observer(arg1, arg2)\<close> (lines 195 to 250). For \<^verbatim>\<open>undefined\<close> and \<^verbatim>\<open>null\<close> the first
  thing that happens is the property read \<^verbatim>\<open>componentClass.isInjector\<close> of line 211.
  The warning of line 212 is \<open>observer_warns\<close>.
\<close>

function observer :: "arg \<Rightarrow> arg \<Rightarrow> js_error + observed" where
  "observer (ArgString s) arg2 = Inl (Error store_names_message)"
| "observer (ArgArray stores) arg2 =
     (if \<not> arg_truthy arg2 then Inr (Decorator stores)
      else (case observer arg2 ArgUndefined of
              Inl e \<Rightarrow> Inl e
            | Inr component \<Rightarrow> Inr (inject stores component)))"
| "observer ArgUndefined arg2 = Inl TypeError"
| "observer ArgNull arg2 = Inl TypeError"
| "observer (ArgBool b) arg2 = observer_primitive (ArgBool b)"
| "observer (ArgNum n) arg2 = observer_primitive (ArgNum n)"
| "observer ArgNaN arg2 = observer_primitive ArgNaN"
| "observer (ArgClass componentClass) arg2 =
     (if stateless componentClass
      then observer (ArgClass (createClass (wrapper_spec componentClass))) ArgUndefined
      else Inr (Decorated (decorate componentClass)))"
  by pat_completeness auto
termination
proof (relation "measure (\<lambda>(arg1, arg2).
    case arg1 of
      ArgArray stores \<Rightarrow> (if arg_truthy arg2 then 2 else 0)
    | ArgClass c \<Rightarrow> (if stateless c then 1 else 0)
    | _ \<Rightarrow> 0)")
  show "wf (measure (\<lambda>(arg1, arg2).
    case arg1 of
      ArgArray stores \<Rightarrow> (if arg_truthy arg2 then 2 else 0)
    | ArgClass c \<Rightarrow> (if stateless c then 1 else (0::nat))
    | _ \<Rightarrow> 0))"
    by simp
next
  fix stores :: "string list" and arg2 :: arg
  assume "\<not> \<not> arg_truthy arg2"
  then show "((arg2, ArgUndefined), (ArgArray stores, arg2)) \<in> measure (\<lambda>(arg1, arg2).
    case arg1 of
      ArgArray stores \<Rightarrow> (if arg_truthy arg2 then 2 else 0)
    | ArgClass c \<Rightarrow> (if stateless c then 1 else 0)
    | _ \<Rightarrow> 0)"
    by (cases arg2) simp_all
next
  fix componentClass :: component_class and arg2 :: arg
  assume "stateless componentClass"
  then show "((ArgClass (createClass (wrapper_spec componentClass)), ArgUndefined),
      (ArgClass componentClass, arg2)) \<in> measure (\<lambda>(arg1, arg2).
    case arg1 of
      ArgArray stores \<Rightarrow> (if arg_truthy arg2 then 2 else 0)
    | ArgClass c \<Rightarrow> (if stateless c then 1 else 0)
    | _ \<Rightarrow> 0)"
    by (simp add: stateless_def createClass_def)
qed

definition observer_warns :: "arg \<Rightarrow> bool" where
  "observer_warns arg1 = (case arg1 of ArgClass c \<Rightarrow> isInjector c | _ \<Rightarrow> False)"

text \<open>The decorator of line 203 applied to a component.\<close>

definition apply_decorator :: "string list \<Rightarrow> arg \<Rightarrow> js_error + observed" where
  "apply_decorator stores componentClass = observer (ArgArray stores) componentClass"

text \<open>
  What composing leaves in a hook slot: the mixin's hook where the slot was empty, the
  combination of the hook that was there with the mixin's hook otherwise.
\<close>

definition composed_hook :: "methods \<Rightarrow> string \<Rightarrow> func option" where
  "composed_hook target funcName =
     (case target funcName of
        None \<Rightarrow> Some (MixinFunc funcName)
      | Some base \<Rightarrow> Some (Combined base (Some (MixinFunc funcName))))"

section \<open>Concrete instances and components\<close>

text \<open>
  A freshly constructed instance in a freshly loaded module, and the same instance
  after the host framework has mounted it and rendered it once.
\<close>

definition example_instance :: state where
  "example_instance =
     \<lparr>hasWeakMap = True, hasReactDOM = True, isDevtoolsEnabled = False,
      isUsingStaticRendering = Bool False,
      componentByNodeRegistery = Some Map.empty, renderReporter = [],
      self = 1, domNode = Some 7,
      thisDisplayName = None, thisName = None,
      constructorDisplayName = None, constructorName = Some ''Counter'',
      rootNodeID = Some ''.0'',
      componentWillReact = Some Returns,
      mobxIsUnmounted = False, mobRenderStart = None, mobRenderEnd = None,
      render = BaseRender, reactionLabel = [], reaction = None,
      isRenderingPending = False, mobxAttached = False,
      forceUpdateCalls = 0, baseRenderCalls = 0, componentWillReactCalls = 0\<rparr>"

definition example_mounted :: state where
  "example_mounted = snd (hostRender (10, 12) (componentWillMount example_instance))"

definition example_this :: receiver where
  "example_this = \<lparr>instanceId = 1, currentProps = Obj 5, currentContext = Obj 6\<rparr>"

text \<open>
  A component class with a render hook, a \<^verbatim>\<open>shouldComponentUpdate\<close> and a
  \<^verbatim>\<open>componentWillMount\<close> of its own, and a function component with a display name
  that differs from the name of the function.
\<close>

definition example_class :: component_class where
  "example_class =
     \<lparr>isFunction = True, asFunction = UserFunc 10,
      prototype = Some [''render'' \<mapsto> UserFunc 11, ''shouldComponentUpdate'' \<mapsto> UserFunc 12,
                        ''componentWillMount'' \<mapsto> UserFunc 13],
      ownMethods = Map.empty,
      isReactClass = False, extendsReactComponent = True, isInjector = False,
      displayName = None, name = Some ''Counter'',
      propTypes = Declared Undefined, contextTypes = Declared Undefined,
      defaultProps = Undefined,
      isMobXReactObserver = False\<rparr>"

definition example_function :: component_class where
  "example_function =
     \<lparr>isFunction = True, asFunction = UserFunc 20,
      prototype = Some Map.empty,
      ownMethods = Map.empty,
      isReactClass = False, extendsReactComponent = False, isInjector = False,
      displayName = Some ''Shown'', name = Some ''fn'',
      propTypes = Declared (Obj 21), contextTypes = Declared Undefined,
      defaultProps = Obj 22,
      isMobXReactObserver = False\<rparr>"

section \<open>The update gate\<close>

lemma key_at_in_range: "i < length ks \<Longrightarrow> key_at ks (int i) = Str (ks ! i)"
  by (simp add: key_at_def)

text \<open>
  As long as no key among the first \<open>n\<close> is the empty string, the loop over them
  answers "must update" exactly when one of them has a next value that differs or is a
  non-observable object.
\<close>

lemma props_loop_nonempty_keys:
  "n \<le> length ks \<Longrightarrow> [] \<notin> set (take n ks) \<Longrightarrow>
   props_loop isObservable thisProps nextProps ks n =
     (\<exists>k \<in> set (take n ks).
        strict_neq (get_prop nextProps k) (get_prop thisProps k)
        \<or> plain_object isObservable (get_prop nextProps k))"
proof (induction n)
  case 0
  then show ?case by simp
next
  case (Suc n)
  from Suc.prems have lt: "n < length ks" by simp
  then have tk: "take (Suc n) ks = take n ks @ [ks ! n]"
    by (simp add: take_Suc_conv_app_nth)
  with Suc.prems have ne: "ks ! n \<noteq> []" and rest: "[] \<notin> set (take n ks)" by auto
  from lt rest have ih: "props_loop isObservable thisProps nextProps ks n =
     (\<exists>k \<in> set (take n ks).
        strict_neq (get_prop nextProps k) (get_prop thisProps k)
        \<or> plain_object isObservable (get_prop nextProps k))"
    using Suc.IH by simp
  show ?case
    using ne lt by (auto simp: tk ih key_at_in_range Let_def plain_object_def)
qed

text \<open>
  For props without an empty-string key the gate skips exactly under the four
  conditions of the specification.
\<close>

lemma shouldComponentUpdate_nonempty_keys:
  assumes "[] \<notin> set (keys thisProps)"
  shows "shouldComponentUpdate isObservable thisProps thisState nextProps nextState
         = (\<not> gate_skips isObservable thisProps thisState nextProps nextState)"
  using assms
    props_loop_nonempty_keys [of "length (keys thisProps)" "keys thisProps" isObservable
      thisProps nextProps]
  by (auto simp: shouldComponentUpdate_def gate_skips_def strict_neq_def list_all_iff)

text \<open>
  Claim C3: the update gate returns "skip" if and only if the state reference is
  unchanged, the prop key counts are equal, every prop value is reference-equal to its
  next value and no prop value is a non-observable object. The code breaks this on
  props that have the empty string as a key: the loop of line 173 stops at that key, as
  its condition is the truthiness of the key, and the keys before it go unchecked. With
  \<^verbatim>\<open>this.props = {a: 1, "": 0}\<close> and \<^verbatim>\<open>nextProps = {a: 2, "": 0}\<close> the gate skips although
  prop \<^verbatim>\<open>a\<close> changed.
\<close>

theorem shouldComponentUpdate_stops_at_empty_key:
  "shouldComponentUpdate (\<lambda>v. False) [(''a'', Num 1), ('''', Num 0)] Null
     [(''a'', Num 2), ('''', Num 0)] Null = False
   \<and> strict_neq (get_prop [(''a'', Num 2), ('''', Num 0)] ''a'')
        (get_prop [(''a'', Num 1), ('''', Num 0)] ''a'')
   \<and> \<not> gate_skips (\<lambda>v. False) [(''a'', Num 1), ('''', Num 0)] Null
        [(''a'', Num 2), ('''', Num 0)] Null"
  by (simp add: shouldComponentUpdate_def gate_skips_def keys_def key_at_def get_prop_def
      strict_neq_def)

section \<open>Coalescing of invalidations\<close>

lemma example_mounted_eval:
  "example_mounted = example_instance
     \<lparr>render := ReactiveRender, reactionLabel := ''Counter#.0.render()'',
      reaction := Some \<lparr>rname = ''Counter#.0.render()'', isDisposed = False\<rparr>,
      mobxAttached := True, baseRenderCalls := 1\<rparr>"
  by (simp add: example_mounted_def example_instance_def hostRender_def initialRender_def
      reactiveRender_def componentWillMount_def static_active_def reaction_label_def
      initialName_def str_or_def Let_def)

lemma onInvalidate_pending:
  "isRenderingPending s \<Longrightarrow> onInvalidate outcome s = (None, s)"
  by (simp add: onInvalidate_def)

lemma invalidations_pending:
  "isRenderingPending s \<Longrightarrow> invalidations outcomes s = s"
  by (induction outcomes) (simp_all add: onInvalidate_pending)

lemma onInvalidate_first:
  assumes "\<not> isRenderingPending s" "\<not> mobxIsUnmounted s"
    and "componentWillReact s \<noteq> Some Unmounts"
  shows "onInvalidate ForceReturns s =
     (None, (case componentWillReact s of
               None \<Rightarrow> s\<lparr>isRenderingPending := True\<rparr>
             | Some w \<Rightarrow> s\<lparr>isRenderingPending := True,
                           componentWillReactCalls := componentWillReactCalls s + 1\<rparr>)
           \<lparr>forceUpdateCalls := forceUpdateCalls s + 1\<rparr>)"
  using assms
  by (cases "componentWillReact s"; cases "the (componentWillReact s)")
     (simp_all add: onInvalidate_def call_componentWillReact_def Let_def)

text \<open>
  Claim C1: for a mounted instance with nothing pending (its reaction exists, its
  render function is the reactive wrapper, it is not unmounted, and its
  \<^verbatim>\<open>componentWillReact\<close>, if any, does not unmount it), any number \<open>N \<ge> 1\<close> of
  invalidations delivered before the pending re-render runs leads to exactly one forced
  update and one re-render. The first invalidation sets the pending flag and forces the
  update; every invalidation that finds the flag set changes nothing, so the state after
  all \<open>N\<close> is the state after the first; and the reactive render wrapper, when the host
  framework runs it, clears the flag and renders once.
\<close>

theorem invalidations_coalesce:
  assumes "reaction s \<noteq> None" and "render s = ReactiveRender"
    and "\<not> isRenderingPending s" and "\<not> mobxIsUnmounted s"
    and "componentWillReact s \<noteq> Some Unmounts"
  shows "let first = snd (onInvalidate ForceReturns s);
             pending = invalidations (ForceReturns # later) s;
             rendered = snd (hostRender clock pending)
         in isRenderingPending first
            \<and> forceUpdateCalls first = forceUpdateCalls s + 1
            \<and> (\<forall>outcome. onInvalidate outcome first = (None, first))
            \<and> pending = first
            \<and> forceUpdateCalls pending = forceUpdateCalls s + 1
            \<and> baseRenderCalls pending = baseRenderCalls s
            \<and> fst (hostRender clock pending) = None
            \<and> \<not> isRenderingPending rendered
            \<and> baseRenderCalls rendered = baseRenderCalls s + 1
            \<and> forceUpdateCalls rendered = forceUpdateCalls s + 1"
proof -
  define first where "first = snd (onInvalidate ForceReturns s)"
  have f: "isRenderingPending first" "forceUpdateCalls first = forceUpdateCalls s + 1"
    "baseRenderCalls first = baseRenderCalls s" "reaction first = reaction s"
    "render first = render s"
    using assms(3-5) by (auto simp: first_def onInvalidate_first split: option.splits)
  have p: "invalidations (ForceReturns # later) s = first"
    using f(1) by (simp add: first_def invalidations_pending)
  have r: "fst (hostRender clock first) = None"
    "\<not> isRenderingPending (snd (hostRender clock first))"
    "baseRenderCalls (snd (hostRender clock first)) = baseRenderCalls s + 1"
    "forceUpdateCalls (snd (hostRender clock first)) = forceUpdateCalls s + 1"
    using assms(1,2) f
    by (auto simp: hostRender_def reactiveRender_def Let_def split: option.splits)
  show ?thesis
    unfolding Let_def p first_def [symmetric]
    using f r by (simp add: onInvalidate_pending)
qed

theorem invalidations_coalesce_witness:
  "reaction example_mounted \<noteq> None \<and> render example_mounted = ReactiveRender
   \<and> \<not> isRenderingPending example_mounted \<and> \<not> mobxIsUnmounted example_mounted
   \<and> componentWillReact example_mounted \<noteq> Some Unmounts
   \<and> forceUpdateCalls (invalidations [ForceReturns, ForceThrows (Thrown 3), ForceReturns]
        example_mounted) = 1
   \<and> baseRenderCalls (snd (hostRender (20, 23)
        (invalidations [ForceReturns, ForceThrows (Thrown 3), ForceReturns] example_mounted))) = 2"
proof -
  have h: "reaction example_mounted \<noteq> None" "render example_mounted = ReactiveRender"
    "\<not> isRenderingPending example_mounted" "\<not> mobxIsUnmounted example_mounted"
    "componentWillReact example_mounted \<noteq> Some Unmounts"
    by (simp_all add: example_mounted_eval example_instance_def)
  have v: "forceUpdateCalls example_mounted = 0" "baseRenderCalls example_mounted = 1"
    by (simp_all add: example_mounted_eval example_instance_def)
  from invalidations_coalesce [OF h, of "[ForceThrows (Thrown 3), ForceReturns]" "(20, 23)"]
  have "forceUpdateCalls (invalidations [ForceReturns, ForceThrows (Thrown 3), ForceReturns]
          example_mounted) = forceUpdateCalls example_mounted + 1"
    and "baseRenderCalls (snd (hostRender (20, 23)
          (invalidations [ForceReturns, ForceThrows (Thrown 3), ForceReturns] example_mounted)))
         = baseRenderCalls example_mounted + 1"
    unfolding Let_def by blast+
  with h v show ?thesis by (simp del: invalidations.simps)
qed

section \<open>Unmounting is terminal\<close>

lemma componentWillUnmount_forceUpdateCalls:
  "forceUpdateCalls (componentWillUnmount s) = forceUpdateCalls s"
  by (simp add: componentWillUnmount_def dispose_def emit_def Let_def split: option.splits)

lemma componentWillUnmount_keeps_flag:
  "mobxIsUnmounted s \<Longrightarrow> mobxIsUnmounted (componentWillUnmount s)"
  by (simp add: componentWillUnmount_def dispose_def emit_def Let_def split: option.splits)

lemma componentWillUnmount_sets_flag:
  "\<not> static_active s \<Longrightarrow> mobxIsUnmounted (componentWillUnmount s)"
  by (simp add: componentWillUnmount_def dispose_def emit_def Let_def split: option.splits)

lemma componentWillUnmount_disposes:
  "\<not> static_active s \<Longrightarrow> render_mobx s = Some r \<Longrightarrow>
   reaction (componentWillUnmount s) = Some (r\<lparr>isDisposed := True\<rparr>)"
  by (auto simp: componentWillUnmount_def dispose_def emit_def render_mobx_def Let_def
      split: option.splits if_splits)

lemma call_componentWillReact_unmounted:
  "mobxIsUnmounted s \<Longrightarrow>
   mobxIsUnmounted (call_componentWillReact w s)
   \<and> forceUpdateCalls (call_componentWillReact w s) = forceUpdateCalls s"
  by (cases w)
     (simp_all add: call_componentWillReact_def Let_def componentWillUnmount_forceUpdateCalls
       componentWillUnmount_keeps_flag)

text \<open>With the unmounted flag set the handler never reaches \<^verbatim>\<open>forceUpdate\<close>.\<close>

lemma onInvalidate_unmounted:
  assumes "mobxIsUnmounted s"
  shows "onInvalidate outcome s = (None, snd (onInvalidate outcome s))
         \<and> mobxIsUnmounted (snd (onInvalidate outcome s))
         \<and> forceUpdateCalls (snd (onInvalidate outcome s)) = forceUpdateCalls s"
proof (cases "isRenderingPending s")
  case True
  with assms show ?thesis by (simp add: onInvalidate_def)
next
  case False
  show ?thesis
  proof (cases "componentWillReact s")
    case None
    with False assms show ?thesis by (simp add: onInvalidate_def Let_def)
  next
    case (Some w)
    from assms have "mobxIsUnmounted (s\<lparr>isRenderingPending := True\<rparr>)" by simp
    from call_componentWillReact_unmounted [OF this, of w] False Some
    show ?thesis by (simp add: onInvalidate_def Let_def)
  qed
qed

lemma hostRender_unmounted:
  "mobxIsUnmounted (snd (hostRender clock s)) = mobxIsUnmounted s
   \<and> forceUpdateCalls (snd (hostRender clock s)) = forceUpdateCalls s"
  by (cases "render s")
     (simp_all add: hostRender_def initialRender_def reactiveRender_def Let_def
       split: option.splits)

lemma reportRendering_unmounted:
  "mobxIsUnmounted (reportRendering now s) = mobxIsUnmounted s
   \<and> forceUpdateCalls (reportRendering now s) = forceUpdateCalls s"
  by (simp add: reportRendering_def emit_def Let_def split: option.splits)

lemma step_unmounted:
  assumes "mobxIsUnmounted s"
  shows "mobxIsUnmounted (step e s) \<and> forceUpdateCalls (step e s) = forceUpdateCalls s"
proof (cases e)
  case (Invalidate outcome)
  with assms onInvalidate_unmounted [OF assms, of outcome] show ?thesis by simp
next
  case (HostRender t0 t1)
  with assms show ?thesis by (simp add: hostRender_unmounted)
next
  case WillUnmount
  with assms show ?thesis
    by (simp add: componentWillUnmount_keeps_flag componentWillUnmount_forceUpdateCalls)
next
  case (DidMount now)
  with assms show ?thesis by (simp add: componentDidMount_def reportRendering_unmounted)
next
  case (DidUpdate now)
  with assms show ?thesis by (simp add: componentDidUpdate_def reportRendering_unmounted)
next
  case TrackComponents
  with assms show ?thesis by (simp add: trackComponents_def)
next
  case (UseStaticRendering v)
  with assms show ?thesis by (simp add: useStaticRendering_def)
qed

lemma run_unmounted:
  "mobxIsUnmounted s \<Longrightarrow>
   mobxIsUnmounted (run es s) \<and> forceUpdateCalls (run es s) = forceUpdateCalls s"
proof (induction es arbitrary: s)
  case Nil
  then show ?case by simp
next
  case (Cons e es)
  from step_unmounted [OF Cons.prems, of e] Cons.IH [of "step e s"]
  show ?case by simp
qed

text \<open>
  The unmount that happens inside the handler, through the user's hook (lines 90 to
  95): the flag is tested after the hook has run, so the update is not forced.
\<close>

lemma call_componentWillReact_forceUpdateCalls:
  "forceUpdateCalls (call_componentWillReact w s) = forceUpdateCalls s"
  by (cases w)
     (simp_all add: call_componentWillReact_def Let_def componentWillUnmount_forceUpdateCalls)

lemma onInvalidate_unmounting_hook:
  assumes "\<not> static_active s" and "componentWillReact s = Some Unmounts"
    and "\<not> isRenderingPending s"
  shows "onInvalidate outcome s =
     (None, componentWillUnmount
              (s\<lparr>isRenderingPending := True,
                 componentWillReactCalls := componentWillReactCalls s + 1\<rparr>))"
proof -
  have "\<not> static_active (s\<lparr>isRenderingPending := True,
      componentWillReactCalls := componentWillReactCalls s + 1\<rparr>)"
    using assms(1) by (simp add: static_active_def)
  then have "mobxIsUnmounted (componentWillUnmount (s\<lparr>isRenderingPending := True,
      componentWillReactCalls := componentWillReactCalls s + 1\<rparr>))"
    by (rule componentWillUnmount_sets_flag)
  with assms(2,3) show ?thesis
    by (simp add: onInvalidate_def call_componentWillReact_def Let_def)
qed

text \<open>
  Whenever the handler leaves the instance unmounted, it has not forced an update,
  whether the flag was set before the handler was entered or by the user's hook.
\<close>

lemma onInvalidate_leaves_unmounted:
  assumes "mobxIsUnmounted (snd (onInvalidate outcome s))"
  shows "forceUpdateCalls (snd (onInvalidate outcome s)) = forceUpdateCalls s"
proof (cases "isRenderingPending s")
  case True
  then show ?thesis by (simp add: onInvalidate_def)
next
  case False
  define s2 where "s2 = (case componentWillReact s of
      None \<Rightarrow> s\<lparr>isRenderingPending := True\<rparr>
    | Some w \<Rightarrow> call_componentWillReact w (s\<lparr>isRenderingPending := True\<rparr>))"
  have f: "forceUpdateCalls s2 = forceUpdateCalls s"
    by (simp add: s2_def call_componentWillReact_forceUpdateCalls split: option.splits)
  show ?thesis
  proof (cases "mobxIsUnmounted s2")
    case True
    with False f show ?thesis by (simp add: onInvalidate_def Let_def s2_def)
  next
    case unmounted: False
    with False have "\<not> mobxIsUnmounted (snd (onInvalidate outcome s))"
      by (auto simp: onInvalidate_def Let_def s2_def dispose_def
          split: force_outcome.splits option.splits)
    with assms show ?thesis by simp
  qed
qed

lemma step_leaves_unmounted:
  assumes "mobxIsUnmounted (step e s)"
  shows "forceUpdateCalls (step e s) = forceUpdateCalls s"
proof (cases e)
  case (Invalidate outcome)
  with assms onInvalidate_leaves_unmounted [of outcome s] show ?thesis
    by (simp split: if_splits)
next
  case (HostRender t0 t1)
  then show ?thesis by (simp add: hostRender_unmounted)
next
  case WillUnmount
  then show ?thesis by (simp add: componentWillUnmount_forceUpdateCalls)
next
  case (DidMount now)
  then show ?thesis by (simp add: componentDidMount_def reportRendering_unmounted)
next
  case (DidUpdate now)
  then show ?thesis by (simp add: componentDidUpdate_def reportRendering_unmounted)
next
  case TrackComponents
  then show ?thesis by (simp add: trackComponents_def)
next
  case (UseStaticRendering v)
  then show ?thesis by (simp add: useStaticRendering_def)
qed

text \<open>
  Claim C2: after \<^verbatim>\<open>componentWillUnmount\<close> has run with static rendering off, the
  unmounted flag is set, the reaction attached to \<^verbatim>\<open>this.render\<close> is disposed, the
  invalidation handler forces no update whatever it is told about \<^verbatim>\<open>forceUpdate\<close>, and
  over every later sequence of invalidations, renders, lifecycle hooks and switches the
  flag stays set and the number of forced updates stays what it was: no render is
  attempted for the instance any more. The same holds when \<^verbatim>\<open>componentWillUnmount\<close> runs
  in the middle of the handler, because the user's \<^verbatim>\<open>componentWillReact\<close> gets the
  component unmounted: the handler that called the hook then returns without forcing the
  update, the instance unmounted. In general the handler, and any single event, that
  leaves the instance unmounted has forced no update.
\<close>

theorem unmount_is_terminal:
  assumes "\<not> static_active s"
  shows "let u = componentWillUnmount s in
           mobxIsUnmounted u
           \<and> (\<forall>r. render_mobx s = Some r \<longrightarrow> reaction u = Some (r\<lparr>isDisposed := True\<rparr>))
           \<and> (\<forall>outcome. forceUpdateCalls (snd (onInvalidate outcome u)) = forceUpdateCalls u)
           \<and> (\<forall>es. mobxIsUnmounted (run es u)
                  \<and> forceUpdateCalls (run es u) = forceUpdateCalls s)
           \<and> (\<forall>outcome. componentWillReact s = Some Unmounts \<and> \<not> isRenderingPending s \<longrightarrow>
                  fst (onInvalidate outcome s) = None
                  \<and> mobxIsUnmounted (snd (onInvalidate outcome s))
                  \<and> forceUpdateCalls (snd (onInvalidate outcome s)) = forceUpdateCalls s
                  \<and> (\<forall>es. mobxIsUnmounted (run es (snd (onInvalidate outcome s)))
                         \<and> forceUpdateCalls (run es (snd (onInvalidate outcome s)))
                             = forceUpdateCalls s))
           \<and> (\<forall>outcome s'. mobxIsUnmounted (snd (onInvalidate outcome s')) \<longrightarrow>
                  forceUpdateCalls (snd (onInvalidate outcome s')) = forceUpdateCalls s')
           \<and> (\<forall>e s'. mobxIsUnmounted (step e s') \<longrightarrow>
                  forceUpdateCalls (step e s') = forceUpdateCalls s')"
proof -
  have u: "mobxIsUnmounted (componentWillUnmount s)"
    using assms by (rule componentWillUnmount_sets_flag)
  have a: "mobxIsUnmounted (componentWillUnmount s)
      \<and> (\<forall>r. render_mobx s = Some r \<longrightarrow>
            reaction (componentWillUnmount s) = Some (r\<lparr>isDisposed := True\<rparr>))
      \<and> (\<forall>outcome. forceUpdateCalls (snd (onInvalidate outcome (componentWillUnmount s)))
            = forceUpdateCalls (componentWillUnmount s))
      \<and> (\<forall>es. mobxIsUnmounted (run es (componentWillUnmount s))
             \<and> forceUpdateCalls (run es (componentWillUnmount s)) = forceUpdateCalls s)"
    using u assms run_unmounted [OF u] onInvalidate_unmounted [OF u]
    by (simp add: componentWillUnmount_disposes componentWillUnmount_forceUpdateCalls)
  have b: "\<forall>outcome. componentWillReact s = Some Unmounts \<and> \<not> isRenderingPending s \<longrightarrow>
      fst (onInvalidate outcome s) = None
      \<and> mobxIsUnmounted (snd (onInvalidate outcome s))
      \<and> forceUpdateCalls (snd (onInvalidate outcome s)) = forceUpdateCalls s
      \<and> (\<forall>es. mobxIsUnmounted (run es (snd (onInvalidate outcome s)))
             \<and> forceUpdateCalls (run es (snd (onInvalidate outcome s))) = forceUpdateCalls s)"
  proof (intro allI impI)
    fix outcome
    assume c: "componentWillReact s = Some Unmounts \<and> \<not> isRenderingPending s"
    define t where "t = s\<lparr>isRenderingPending := True,
      componentWillReactCalls := componentWillReactCalls s + 1\<rparr>"
    have o: "onInvalidate outcome s = (None, componentWillUnmount t)"
      using assms c by (simp add: onInvalidate_unmounting_hook t_def)
    have "\<not> static_active t" using assms by (simp add: static_active_def t_def)
    then have m: "mobxIsUnmounted (componentWillUnmount t)"
      by (rule componentWillUnmount_sets_flag)
    have f: "forceUpdateCalls (componentWillUnmount t) = forceUpdateCalls s"
      by (simp add: componentWillUnmount_forceUpdateCalls t_def)
    show "fst (onInvalidate outcome s) = None
      \<and> mobxIsUnmounted (snd (onInvalidate outcome s))
      \<and> forceUpdateCalls (snd (onInvalidate outcome s)) = forceUpdateCalls s
      \<and> (\<forall>es. mobxIsUnmounted (run es (snd (onInvalidate outcome s)))
             \<and> forceUpdateCalls (run es (snd (onInvalidate outcome s))) = forceUpdateCalls s)"
      using m f run_unmounted [OF m] by (simp add: o)
  qed
  have c: "\<forall>outcome s'. mobxIsUnmounted (snd (onInvalidate outcome s')) \<longrightarrow>
      forceUpdateCalls (snd (onInvalidate outcome s')) = forceUpdateCalls s'"
    by (simp add: onInvalidate_leaves_unmounted)
  have d: "\<forall>e s'. mobxIsUnmounted (step e s') \<longrightarrow>
      forceUpdateCalls (step e s') = forceUpdateCalls s'"
    by (simp add: step_leaves_unmounted)
  show ?thesis
    unfolding Let_def using a b c d by blast
qed

theorem unmount_is_terminal_witness:
  "\<not> static_active example_mounted
   \<and> \<not> static_active (example_mounted\<lparr>componentWillReact := Some Unmounts\<rparr>)
   \<and> reaction (componentWillUnmount example_mounted)
       = Some \<lparr>rname = ''Counter#.0.render()'', isDisposed = True\<rparr>
   \<and> mobxIsUnmounted (run [Invalidate ForceReturns, HostRender 30 31, Invalidate ForceReturns]
       (componentWillUnmount example_mounted))
   \<and> forceUpdateCalls (run [Invalidate ForceReturns, HostRender 30 31, Invalidate ForceReturns]
       (componentWillUnmount example_mounted)) = 0
   \<and> onInvalidate ForceReturns (example_mounted\<lparr>componentWillReact := Some Unmounts\<rparr>)
       = (None, example_mounted
            \<lparr>componentWillReact := Some Unmounts, isRenderingPending := True,
             componentWillReactCalls := 1, mobxIsUnmounted := True,
             reaction := Some \<lparr>rname = ''Counter#.0.render()'', isDisposed = True\<rparr>\<rparr>)
   \<and> mobxIsUnmounted
       (snd (onInvalidate ForceReturns (example_mounted\<lparr>componentWillReact := Some Unmounts\<rparr>)))
   \<and> forceUpdateCalls
       (snd (onInvalidate ForceReturns (example_mounted\<lparr>componentWillReact := Some Unmounts\<rparr>)))
       = 0"
proof -
  have h: "\<not> static_active example_mounted"
    by (simp add: example_mounted_eval example_instance_def static_active_def)
  have h': "\<not> static_active (example_mounted\<lparr>componentWillReact := Some Unmounts\<rparr>)"
    by (simp add: example_mounted_eval example_instance_def static_active_def)
  have m: "render_mobx example_mounted
      = Some \<lparr>rname = ''Counter#.0.render()'', isDisposed = False\<rparr>"
    and f: "forceUpdateCalls example_mounted = 0"
    by (simp_all add: example_mounted_eval example_instance_def render_mobx_def)
  have p: "componentWillReact (example_mounted\<lparr>componentWillReact := Some Unmounts\<rparr>)
        = Some Unmounts
      \<and> \<not> isRenderingPending (example_mounted\<lparr>componentWillReact := Some Unmounts\<rparr>)"
    and f': "forceUpdateCalls (example_mounted\<lparr>componentWillReact := Some Unmounts\<rparr>) = 0"
    by (simp_all add: example_mounted_eval example_instance_def)
  have v: "onInvalidate ForceReturns (example_mounted\<lparr>componentWillReact := Some Unmounts\<rparr>)
       = (None, example_mounted
            \<lparr>componentWillReact := Some Unmounts, isRenderingPending := True,
             componentWillReactCalls := 1, mobxIsUnmounted := True,
             reaction := Some \<lparr>rname = ''Counter#.0.render()'', isDisposed = True\<rparr>\<rparr>)"
    by (simp add: example_mounted_eval example_instance_def onInvalidate_def
        call_componentWillReact_def componentWillUnmount_def static_active_def render_mobx_def
        dispose_def Let_def)
  from unmount_is_terminal [OF h] m f
  have a: "reaction (componentWillUnmount example_mounted)
       = Some \<lparr>rname = ''Counter#.0.render()'', isDisposed = True\<rparr>"
    and b: "\<forall>es. mobxIsUnmounted (run es (componentWillUnmount example_mounted))
       \<and> forceUpdateCalls (run es (componentWillUnmount example_mounted)) = 0"
    unfolding Let_def by simp_all
  from unmount_is_terminal [OF h'] p f'
  have c: "mobxIsUnmounted
       (snd (onInvalidate ForceReturns (example_mounted\<lparr>componentWillReact := Some Unmounts\<rparr>)))"
    and d: "forceUpdateCalls
       (snd (onInvalidate ForceReturns (example_mounted\<lparr>componentWillReact := Some Unmounts\<rparr>)))
       = 0"
    unfolding Let_def by simp_all
  from h h' a b v c d show ?thesis by (simp del: run.simps)
qed

section \<open>An error while forcing the update\<close>

text \<open>
  Claim C4: when the handler gets as far as forcing the update (nothing pending, not
  unmounted, the user's hook does not unmount) and \<^verbatim>\<open>forceUpdate\<close> throws \<open>e\<close>, the
  handler leaves with exactly \<open>e\<close> and the reaction is disposed in the state it leaves
  behind; when \<^verbatim>\<open>forceUpdate\<close> returns, the handler returns without an error and the
  reaction is as it was.
\<close>

theorem force_update_error_disposes:
  assumes "\<not> isRenderingPending s" and "\<not> mobxIsUnmounted s"
    and "componentWillReact s \<noteq> Some Unmounts" and "reaction s = Some r"
  shows "fst (onInvalidate (ForceThrows e) s) = Some e
         \<and> reaction (snd (onInvalidate (ForceThrows e) s)) = Some (r\<lparr>isDisposed := True\<rparr>)
         \<and> fst (onInvalidate ForceReturns s) = None
         \<and> reaction (snd (onInvalidate ForceReturns s)) = Some r"
  using assms
  by (cases "componentWillReact s"; cases "the (componentWillReact s)")
     (simp_all add: onInvalidate_def call_componentWillReact_def dispose_def Let_def)

theorem force_update_error_disposes_witness:
  "\<not> isRenderingPending example_mounted \<and> \<not> mobxIsUnmounted example_mounted
   \<and> componentWillReact example_mounted \<noteq> Some Unmounts
   \<and> reaction example_mounted = Some \<lparr>rname = ''Counter#.0.render()'', isDisposed = False\<rparr>
   \<and> onInvalidate (ForceThrows (Thrown 3)) example_mounted =
       (Some (Thrown 3), example_mounted
          \<lparr>isRenderingPending := True, componentWillReactCalls := 1, forceUpdateCalls := 1,
           reaction := Some \<lparr>rname = ''Counter#.0.render()'', isDisposed = True\<rparr>\<rparr>)"
proof -
  have h: "\<not> isRenderingPending example_mounted" "\<not> mobxIsUnmounted example_mounted"
    "componentWillReact example_mounted \<noteq> Some Unmounts"
    "reaction example_mounted = Some \<lparr>rname = ''Counter#.0.render()'', isDisposed = False\<rparr>"
    by (simp_all add: example_mounted_eval example_instance_def)
  have "onInvalidate (ForceThrows (Thrown 3)) example_mounted =
       (Some (Thrown 3), example_mounted
          \<lparr>isRenderingPending := True, componentWillReactCalls := 1, forceUpdateCalls := 1,
           reaction := Some \<lparr>rname = ''Counter#.0.render()'', isDisposed = True\<rparr>\<rparr>)"
    by (simp add: example_mounted_eval example_instance_def onInvalidate_def
        call_componentWillReact_def dispose_def Let_def)
  with force_update_error_disposes [OF h, of "Thrown 3"] h show ?thesis by simp
qed

section \<open>Static rendering\<close>

text \<open>
  Claim C5: with static rendering active, \<^verbatim>\<open>componentWillMount\<close> and
  \<^verbatim>\<open>componentWillUnmount\<close> return at once and leave the whole state as it is: the render
  function, the reaction, the pending and unmounted flags, the registry and the reports
  emitted.
\<close>

theorem static_rendering_bypass:
  assumes "static_active s"
  shows "componentWillMount s = s \<and> componentWillUnmount s = s"
  using assms by (simp add: componentWillMount_def componentWillUnmount_def)

theorem static_rendering_bypass_witness:
  "static_active (useStaticRendering (Bool True) example_instance)
   \<and> render (componentWillMount (useStaticRendering (Bool True) example_instance)) = BaseRender
   \<and> reaction (componentWillUnmount (useStaticRendering (Bool True) example_instance)) = None
   \<and> \<not> mobxIsUnmounted (componentWillUnmount (useStaticRendering (Bool True) example_instance))
   \<and> renderReporter (componentWillUnmount (useStaticRendering (Bool True) example_instance)) = []"
proof -
  have h: "static_active (useStaticRendering (Bool True) example_instance)"
    by (simp add: static_active_def useStaticRendering_def)
  from static_rendering_bypass [OF h] h show ?thesis
    by (simp add: useStaticRendering_def example_instance_def)
qed

section \<open>Unmounting before the first render\<close>

text \<open>
  Claim C10: an instance mounted with static rendering off and unmounted before its
  first render has \<^verbatim>\<open>initialRender\<close> as its render function, which carries no \<^verbatim>\<open>$mobx\<close>;
  \<^verbatim>\<open>componentWillUnmount\<close> then disposes nothing (there is still no reaction) and sets
  the unmounted flag. No branch of \<^verbatim>\<open>componentWillUnmount\<close> raises.
\<close>

theorem unmount_before_first_render:
  assumes "\<not> static_active s"
  shows "render (componentWillMount s) = InitialRender
         \<and> reaction (componentWillMount s) = None
         \<and> render_mobx (componentWillMount s) = None
         \<and> reaction (componentWillUnmount (componentWillMount s)) = None
         \<and> mobxIsUnmounted (componentWillUnmount (componentWillMount s))"
  using assms
  by (simp add: componentWillMount_def componentWillUnmount_def render_mobx_def
      static_active_def emit_def findDOMNode_def Let_def split: option.splits)

theorem unmount_before_first_render_witness:
  "\<not> static_active example_instance
   \<and> componentWillUnmount (componentWillMount example_instance)
       = example_instance\<lparr>reactionLabel := ''Counter#.0.render()'', render := InitialRender,
           mobxIsUnmounted := True\<rparr>"
proof -
  have h: "\<not> static_active example_instance"
    by (simp add: example_instance_def static_active_def)
  have "componentWillUnmount (componentWillMount example_instance)
       = example_instance\<lparr>reactionLabel := ''Counter#.0.render()'', render := InitialRender,
           mobxIsUnmounted := True\<rparr>"
    by (simp add: example_instance_def componentWillMount_def componentWillUnmount_def
        static_active_def render_mobx_def reaction_label_def initialName_def str_or_def Let_def)
  with unmount_before_first_render [OF h] h show ?thesis by simp
qed

section \<open>The hook composer\<close>

lemma patch_other: "n \<noteq> funcName \<Longrightarrow> patch target funcName n = target n"
  by (simp add: patch_def Let_def split: option.splits)

lemma patch_same:
  "funcName \<in> set mixin_hooks \<Longrightarrow> patch target funcName funcName = composed_hook target funcName"
  by (simp add: patch_def reactiveMixin_def composed_hook_def Let_def split: option.splits)

text \<open>
  Claim C6: for a hook name of the mixin, \<^verbatim>\<open>patch\<close> puts the mixin's hook itself into an
  empty slot; into a slot that holds a hook it puts the combined hook, and a call of the
  combined hook with some \<^verbatim>\<open>this\<close> and arguments makes the calls of the original hook
  with that \<^verbatim>\<open>this\<close> and those arguments first and then calls the mixin's hook with the
  same \<^verbatim>\<open>this\<close> and arguments. No other slot of the target changes.
\<close>

theorem patch_composes:
  assumes "funcName \<in> set mixin_hooks"
  shows "(target funcName = None \<longrightarrow>
            patch target funcName funcName = Some (MixinFunc funcName))
    \<and> (\<forall>base. target funcName = Some base \<longrightarrow>
          patch target funcName funcName = Some (Combined base (Some (MixinFunc funcName)))
          \<and> (\<forall>this args calls.
                apply_func base this args = (None, calls) \<longrightarrow>
                apply_func (Combined base (Some (MixinFunc funcName))) this args
                  = (None, calls @ [Call (MixinFunc funcName) this args])))
    \<and> (\<forall>other. other \<noteq> funcName \<longrightarrow> patch target funcName other = target other)"
  using assms by (auto simp: patch_def reactiveMixin_def Let_def split: option.splits)

theorem patch_composes_witness:
  "''componentDidMount'' \<in> set mixin_hooks
   \<and> patch Map.empty ''componentDidMount'' ''componentDidMount''
       = Some (MixinFunc ''componentDidMount'')
   \<and> (case patch [''componentDidMount'' \<mapsto> UserFunc 4] ''componentDidMount''
             ''componentDidMount'' of
        None \<Rightarrow> False
      | Some f \<Rightarrow> apply_func f example_this [Num 8]
          = (None, [Call (UserFunc 4) example_this [Num 8],
                    Call (MixinFunc ''componentDidMount'') example_this [Num 8]]))"
proof -
  have h: "''componentDidMount'' \<in> set mixin_hooks" by (simp add: mixin_hooks_def)
  from patch_composes [OF h, of "Map.empty"]
  have a: "patch Map.empty ''componentDidMount'' ''componentDidMount''
       = Some (MixinFunc ''componentDidMount'')" by simp
  from patch_composes [OF h, of "[''componentDidMount'' \<mapsto> UserFunc 4]"]
  have b: "patch [''componentDidMount'' \<mapsto> UserFunc 4] ''componentDidMount''
        ''componentDidMount''
      = Some (Combined (UserFunc 4) (Some (MixinFunc ''componentDidMount'')))" by simp
  show ?thesis using h a b by simp
qed

section \<open>Usage errors\<close>

lemma observer_string: "observer (ArgString s) arg2 = Inl (Error store_names_message)"
  by simp

lemma observer_falsy_target:
  "observer (ArgBool False) arg2 = Inl (Error valid_component_message)"
  "observer (ArgNum 0) arg2 = Inl (Error valid_component_message)"
  "observer ArgNaN arg2 = Inl (Error valid_component_message)"
  by (simp_all add: observer_primitive_def)

lemma trackComponents_without_WeakMap:
  "\<not> hasWeakMap s \<Longrightarrow> trackComponents s = Inl (Error tracking_unsupported)"
  by (simp add: trackComponents_def)

text \<open>
  Claim C7: each usage error reaches the caller at once: a descriptive error for store
  names given as one string, a descriptive error for an absent (null or undefined)
  decoration target, a hard error from \<^verbatim>\<open>trackComponents\<close> without \<^verbatim>\<open>WeakMap\<close>. The first
  and the third hold (\<open>observer_string\<close>, \<open>trackComponents_without_WeakMap\<close>). For an
  absent target the code does not get to its own check of line 232: the property read
  \<^verbatim>\<open>componentClass.isInjector\<close> of line 211 comes first and fails with the engine's
  \<^verbatim>\<open>TypeError\<close>, so \<^verbatim>\<open>observer(undefined)\<close> and \<^verbatim>\<open>observer(null)\<close> never throw the
  descriptive error; only the falsy targets \<^verbatim>\<open>false\<close>, \<^verbatim>\<open>0\<close> and \<^verbatim>\<open>NaN\<close> do
  (\<open>observer_falsy_target\<close>).
\<close>

theorem observer_absent_target:
  "observer ArgUndefined arg2 = Inl TypeError
   \<and> observer ArgNull arg2 = Inl TypeError
   \<and> observer ArgUndefined arg2 \<noteq> Inl (Error valid_component_message)
   \<and> observer ArgNull arg2 \<noteq> Inl (Error valid_component_message)"
  by simp

section \<open>Decorating\<close>

lemma target_of_decorate:
  "target_of (decorate c) =
     (let t = foldl patch (target_of c) lifecycle_hooks
      in if t ''shouldComponentUpdate'' = None
         then t(''shouldComponentUpdate'' := reactiveMixin ''shouldComponentUpdate'')
         else t)"
  by (simp add: decorate_def target_of_def with_target_def Let_def split: option.splits)

lemma decorate_shouldComponentUpdate:
  "target_of (decorate c) ''shouldComponentUpdate'' =
      (case target_of c ''shouldComponentUpdate'' of
         None \<Rightarrow> Some (MixinFunc ''shouldComponentUpdate'')
       | Some f \<Rightarrow> Some f)"
  by (simp add: target_of_decorate Let_def patch_other lifecycle_hooks_def mixin_hooks_def
      reactiveMixin_def split: option.splits)

lemma composed_hook_patch_other:
  "n \<noteq> funcName \<Longrightarrow> composed_hook (patch target funcName) n = composed_hook target n"
  by (simp add: composed_hook_def patch_other)

lemma decorate_lifecycle_hooks:
  "funcName \<in> set lifecycle_hooks \<Longrightarrow>
   target_of (decorate c) funcName = composed_hook (target_of c) funcName"
  by (auto simp: target_of_decorate Let_def patch_other patch_same composed_hook_patch_other
      lifecycle_hooks_def mixin_hooks_def)

lemma decorate_other:
  "funcName \<notin> set lifecycle_hooks \<Longrightarrow> funcName \<noteq> ''shouldComponentUpdate'' \<Longrightarrow>
   target_of (decorate c) funcName = target_of c funcName"
  by (simp add: target_of_decorate Let_def patch_other lifecycle_hooks_def)

lemma decorate_statics:
  "displayName (decorate c) = displayName c" "propTypes (decorate c) = propTypes c"
  "contextTypes (decorate c) = contextTypes c" "defaultProps (decorate c) = defaultProps c"
  "isMobXReactObserver (decorate c)"
  by (simp_all add: decorate_def with_target_def Let_def split: option.splits)

text \<open>
  Claim C9: decorating a component class (anything that is not taken for a bare
  function component) leaves a \<^verbatim>\<open>shouldComponentUpdate\<close> the target already defines as it
  is and installs the mixin's update gate only where there is none, whereas each of the
  four lifecycle hooks is composed in either case: the mixin's hook alone in an empty
  slot, the user's hook combined with the mixin's otherwise.
\<close>

theorem observer_shouldComponentUpdate_only_if_absent:
  assumes "\<not> stateless c"
  shows "observer (ArgClass c) arg2 = Inr (Decorated (decorate c))
    \<and> (\<forall>f. target_of c ''shouldComponentUpdate'' = Some f \<longrightarrow>
          target_of (decorate c) ''shouldComponentUpdate'' = Some f)
    \<and> (target_of c ''shouldComponentUpdate'' = None \<longrightarrow>
          target_of (decorate c) ''shouldComponentUpdate''
            = Some (MixinFunc ''shouldComponentUpdate''))
    \<and> (\<forall>funcName \<in> set lifecycle_hooks.
          (target_of c funcName = None \<longrightarrow>
             target_of (decorate c) funcName = Some (MixinFunc funcName))
          \<and> (\<forall>base. target_of c funcName = Some base \<longrightarrow>
                target_of (decorate c) funcName
                  = Some (Combined base (Some (MixinFunc funcName)))))"
  using assms
  by (simp add: decorate_shouldComponentUpdate decorate_lifecycle_hooks composed_hook_def)

theorem observer_shouldComponentUpdate_only_if_absent_witness:
  "\<not> stateless example_class
   \<and> (case observer (ArgClass example_class) ArgUndefined of
        Inr (Decorated d) \<Rightarrow>
          target_of d ''shouldComponentUpdate'' = Some (UserFunc 12)
          \<and> target_of d ''componentWillMount''
              = Some (Combined (UserFunc 13) (Some (MixinFunc ''componentWillMount'')))
          \<and> target_of d ''componentDidUpdate'' = Some (MixinFunc ''componentDidUpdate'')
      | _ \<Rightarrow> False)"
proof -
  have h: "\<not> stateless example_class"
    by (simp add: stateless_def example_class_def)
  have t: "target_of example_class ''shouldComponentUpdate'' = Some (UserFunc 12)"
    "target_of example_class ''componentWillMount'' = Some (UserFunc 13)"
    "target_of example_class ''componentDidUpdate'' = None"
    by (simp_all add: target_of_def example_class_def)
  have l: "''componentWillMount'' \<in> set lifecycle_hooks"
    "''componentDidUpdate'' \<in> set lifecycle_hooks"
    by (simp_all add: lifecycle_hooks_def)
  from observer_shouldComponentUpdate_only_if_absent [OF h, of ArgUndefined] t l h
  show ?thesis by (simp del: observer.simps)
qed

section \<open>Function components\<close>

lemma createClass_not_stateless: "\<not> stateless (createClass sp)"
  by (simp add: stateless_def createClass_def)

lemma target_of_createClass: "target_of (createClass sp) = [''render'' \<mapsto> spec_render sp]"
  by (simp add: target_of_def createClass_def)

text \<open>
  Claim C8: given a bare function component, \<^verbatim>\<open>observer\<close> returns what it returns for
  the class \<^verbatim>\<open>React.createClass\<close> makes of the wrapper specification, which is that class
  decorated like any component class: the four lifecycle hooks and the update gate of
  the mixin installed, marked as an observer. The wrapper's display name is the
  function's \<^verbatim>\<open>displayName\<close> when that is a non-empty string and the function's \<^verbatim>\<open>name\<close>
  otherwise; its \<^verbatim>\<open>propTypes\<close> and \<^verbatim>\<open>contextTypes\<close> are what the host framework merges
  from the function's \<^verbatim>\<open>propTypes\<close> and \<^verbatim>\<open>contextTypes\<close>, each from its own; its default
  props are the function's \<^verbatim>\<open>defaultProps\<close>; and its render hook, called on an instance,
  calls the original function with that instance as \<^verbatim>\<open>this\<close> and the instance's current
  props and context as arguments.
\<close>

theorem observer_wraps_function_component:
  assumes "stateless c"
  shows "let w = decorate (createClass (wrapper_spec c)) in
      observer (ArgClass c) arg2 = observer (ArgClass (createClass (wrapper_spec c))) ArgUndefined
      \<and> observer (ArgClass c) arg2 = Inr (Decorated w)
      \<and> (\<forall>d. displayName c = Some d \<and> d \<noteq> [] \<longrightarrow> displayName w = Some d)
      \<and> (displayName c = None \<or> displayName c = Some [] \<longrightarrow> displayName w = name c)
      \<and> spec_propTypes (wrapper_spec c) = propTypes c
      \<and> spec_contextTypes (wrapper_spec c) = contextTypes c
      \<and> propTypes w = Merged (propTypes c)
      \<and> contextTypes w = Merged (contextTypes c)
      \<and> spec_getDefaultProps (wrapper_spec c) = defaultProps c
      \<and> defaultProps w = defaultProps c
      \<and> target_of w ''render'' = Some (StatelessRender (asFunction c))
      \<and> (\<forall>this args.
            apply_func (StatelessRender (asFunction c)) this args
              = apply_func (asFunction c) this [currentProps this, currentContext this])
      \<and> (\<forall>f this args. asFunction c = UserFunc f \<longrightarrow>
            apply_func (StatelessRender (asFunction c)) this args
              = (None, [Call (UserFunc f) this [currentProps this, currentContext this]]))
      \<and> (\<forall>funcName \<in> set lifecycle_hooks. target_of w funcName = Some (MixinFunc funcName))
      \<and> target_of w ''shouldComponentUpdate'' = Some (MixinFunc ''shouldComponentUpdate'')
      \<and> isMobXReactObserver w"
proof -
  have r: "''render'' \<notin> set lifecycle_hooks" by (simp add: lifecycle_hooks_def)
  have n: "\<forall>funcName \<in> set lifecycle_hooks.
      target_of (createClass (wrapper_spec c)) funcName = None"
    by (auto simp: target_of_createClass lifecycle_hooks_def)
  have d: "\<forall>d. displayName c = Some d \<and> d \<noteq> [] \<longrightarrow>
      displayName (createClass (wrapper_spec c)) = Some d"
    by (auto simp: createClass_def wrapper_spec_def str_or_def split: list.splits)
  have e: "displayName c = None \<or> displayName c = Some [] \<longrightarrow>
      displayName (createClass (wrapper_spec c)) = name c"
    by (auto simp: createClass_def wrapper_spec_def str_or_def)
  have m: "propTypes (createClass (wrapper_spec c)) = Merged (propTypes c)"
    "contextTypes (createClass (wrapper_spec c)) = Merged (contextTypes c)"
    "defaultProps (createClass (wrapper_spec c)) = defaultProps c"
    "spec_render (wrapper_spec c) = StatelessRender (asFunction c)"
    "spec_propTypes (wrapper_spec c) = propTypes c"
    "spec_contextTypes (wrapper_spec c) = contextTypes c"
    "spec_getDefaultProps (wrapper_spec c) = defaultProps c"
    by (simp_all add: createClass_def wrapper_spec_def)
  show ?thesis
    unfolding Let_def
    using assms r n d e m
    by (simp add: createClass_not_stateless decorate_statics decorate_shouldComponentUpdate
        decorate_lifecycle_hooks decorate_other composed_hook_def target_of_createClass)
qed

theorem observer_wraps_function_component_witness:
  "stateless example_function
   \<and> stateless (example_function\<lparr>displayName := Some []\<rparr>)
   \<and> (case observer (ArgClass example_function) ArgUndefined of
        Inr (Decorated w) \<Rightarrow>
          displayName w = Some ''Shown''
          \<and> propTypes w = Merged (Declared (Obj 21))
          \<and> contextTypes w = Merged (Declared Undefined)
          \<and> defaultProps w = Obj 22
          \<and> (case target_of w ''render'' of
                Some f \<Rightarrow> apply_func f example_this []
                  = (None, [Call (UserFunc 20) example_this [Obj 5, Obj 6]])
              | None \<Rightarrow> False)
          \<and> target_of w ''componentWillMount'' = Some (MixinFunc ''componentWillMount'')
      | _ \<Rightarrow> False)
   \<and> (case observer (ArgClass (example_function\<lparr>displayName := Some []\<rparr>)) ArgUndefined of
        Inr (Decorated w) \<Rightarrow> displayName w = Some ''fn''
      | _ \<Rightarrow> False)"
proof -
  have h: "stateless example_function"
    by (simp add: stateless_def example_function_def)
  have h': "stateless (example_function\<lparr>displayName := Some []\<rparr>)"
    by (simp add: stateless_def example_function_def)
  have l: "''componentWillMount'' \<in> set lifecycle_hooks" by (simp add: lifecycle_hooks_def)
  have v: "displayName example_function = Some ''Shown''"
    "propTypes example_function = Declared (Obj 21)"
    "contextTypes example_function = Declared Undefined"
    "defaultProps example_function = Obj 22"
    "asFunction example_function = UserFunc 20"
    "currentProps example_this = Obj 5" "currentContext example_this = Obj 6"
    by (simp_all add: example_function_def example_this_def)
  have v': "displayName (example_function\<lparr>displayName := Some []\<rparr>) = Some []"
    "name (example_function\<lparr>displayName := Some []\<rparr>) = Some ''fn''"
    by (simp_all add: example_function_def)
  define w where "w = decorate (createClass (wrapper_spec example_function))"
  define w' where
    "w' = decorate (createClass (wrapper_spec (example_function\<lparr>displayName := Some []\<rparr>)))"
  from observer_wraps_function_component [OF h, of ArgUndefined]
  have e: "observer (ArgClass example_function) ArgUndefined = Inr (Decorated w)"
    and d: "\<forall>d. displayName example_function = Some d \<and> d \<noteq> [] \<longrightarrow> displayName w = Some d"
      "propTypes w = Merged (propTypes example_function)"
      "contextTypes w = Merged (contextTypes example_function)"
      "defaultProps w = defaultProps example_function"
    and r: "target_of w ''render'' = Some (StatelessRender (asFunction example_function))"
    and m: "\<forall>funcName \<in> set lifecycle_hooks. target_of w funcName = Some (MixinFunc funcName)"
    unfolding Let_def w_def by blast+
  from observer_wraps_function_component [OF h', of ArgUndefined]
  have e': "observer (ArgClass (example_function\<lparr>displayName := Some []\<rparr>)) ArgUndefined
      = Inr (Decorated w')"
    and d': "displayName (example_function\<lparr>displayName := Some []\<rparr>) = None
        \<or> displayName (example_function\<lparr>displayName := Some []\<rparr>) = Some []
      \<longrightarrow> displayName w' = name (example_function\<lparr>displayName := Some []\<rparr>)"
    unfolding Let_def w'_def by blast+
  from d(1) v(1) have n: "displayName w = Some ''Shown''" by simp
  from d' v' have n': "displayName w' = Some ''fn''" by simp
  from m l have c: "target_of w ''componentWillMount'' = Some (MixinFunc ''componentWillMount'')"
    by blast
  from h h' e e' n n' d(2-4) r v c show ?thesis by (simp del: observer.simps)
qed

end
